theory Spec2Isabelle
  imports Main
begin

section \<open>JSON adaptation objects of psycopg2 (lib/_json.py)\<close>

text \<open>
  The module wraps a Python object with a serialisation function (class \<open>Json\<close>) and
  registers typecasters for the \<open>json\<close> and \<open>json[]\<close> types, looking their oids up
  in \<open>pg_type\<close> when they are not given. Exceptions are values of \<open>exn\<close>; a function
  that can raise returns \<open>exn + 'a\<close>, with \<open>Inl\<close> the exception. Mutable objects (the
  connection, the typecaster tables) are passed in and returned updated.
\<close>

subsection \<open>Exceptions and the json module\<close>

datatype exn =
    ImportError string
  | ProgrammingError string
  | DatabaseError string

text \<open>
  The module-level name \<open>json\<close> is either a json implementation or \<open>None\<close>
  (lines 37-43). An implementation offers \<open>dumps\<close> and \<open>loads\<close>, each of which may
  raise. \<open>'v\<close> is the type of Python objects.
\<close>

record 'v json_module =
  json_dumps :: "'v \<Rightarrow> exn + string"
  json_loads :: "string \<Rightarrow> exn + 'v"

subsection \<open>The Json wrapper\<close>

text \<open>The attribute \<open>_dumps\<close> is \<open>None\<close> when no function is available.\<close>

record 'v Json =
  adapted :: "'v"
  underscore_dumps :: "('v \<Rightarrow> exn + string) option"

definition Json_init ::
  "'v json_module option \<Rightarrow> 'v \<Rightarrow> ('v \<Rightarrow> exn + string) option \<Rightarrow> 'v Json" where
  "Json_init json adapted' dumps =
     \<lparr> adapted = adapted',
       underscore_dumps =
         (case dumps of
            Some d \<Rightarrow> Some d
          | None \<Rightarrow> (case json of Some m \<Rightarrow> Some (json_dumps m) | None \<Rightarrow> None)) \<rparr>"

definition Json_dumps :: "'v Json \<Rightarrow> 'v \<Rightarrow> exn + string" where
  "Json_dumps self obj =
     (case underscore_dumps self of
        Some dumps \<Rightarrow> dumps obj
      | None \<Rightarrow>
          Inl (ImportError
            ''json module not available: you should provide a dumps function''))"

text \<open>
  \<open>QuotedString(s).getquoted()\<close> belongs to the C extension; the quoting routine is the
  parameter \<open>quote\<close>.
\<close>

definition Json_getquoted :: "(string \<Rightarrow> string) \<Rightarrow> 'v Json \<Rightarrow> exn + string" where
  "Json_getquoted quote self =
     (case Json_dumps self (adapted self) of
        Inl e \<Rightarrow> Inl e
      | Inr s \<Rightarrow> Inr (quote s))"

subsection \<open>Typecasters\<close>

text \<open>
  Connections and cursors are objects with an identity; \<open>ref\<close> is that identity.
  A Python value that is an int or \<open>None\<close> is an \<open>int option\<close>.

  \<open>new_type\<close> and \<open>new_array_type\<close> are constructors of the C extension: a typecaster
  is the tuple of oids it is keyed on, its name, and its cast function (scalar) or its
  base typecaster (array).
\<close>

type_synonym ref = nat

datatype 'v typecaster =
    new_type "int option list" string "string \<Rightarrow> ref \<Rightarrow> exn + 'v"
  | new_array_type "int option list" string "'v typecaster"

fun typecaster_values :: "'v typecaster \<Rightarrow> int option list" where
  "typecaster_values (new_type vs n f) = vs"
| "typecaster_values (new_array_type vs n b) = vs"

definition JSON_OID :: int where
  "JSON_OID = 114"

definition JSONARRAY_OID :: int where
  "JSONARRAY_OID = 199"

definition typecast_json :: "(string \<Rightarrow> exn + 'v) \<Rightarrow> string \<Rightarrow> ref \<Rightarrow> exn + 'v" where
  "typecast_json loads s cur = loads s"

text \<open>
  \<open>_create_json_typecasters\<close> (lines 191-205). The second component of the result is
  an option because the caller tests it against \<open>None\<close> (line 173); the function itself
  builds the array typecaster on every path that returns.
\<close>

definition create_json_typecasters ::
  "'v json_module option \<Rightarrow> int \<Rightarrow> int option \<Rightarrow> (string \<Rightarrow> exn + 'v) option
     \<Rightarrow> exn + ('v typecaster \<times> 'v typecaster option)" where
  "create_json_typecasters json oid array_oid loads =
     (case (case loads of
              Some f \<Rightarrow> Inr f
            | None \<Rightarrow>
                (case json of
                   None \<Rightarrow> Inl (ImportError ''no json module available'')
                 | Some m \<Rightarrow> Inr (json_loads m))) of
        Inl e \<Rightarrow> Inl e
      | Inr loads' \<Rightarrow>
          (let JSON = new_type [Some oid] ''JSON'' (typecast_json loads');
               JSONARRAY = new_array_type [array_oid] ''JSONARRAY'' JSON
           in Inr (JSON, Some JSONARRAY)))"

subsection \<open>The connection\<close>

text \<open>
  Modelled from the spec: the connection object of the driver (the C extension, not in
  this module), which the spec lists as exposing \<open>status\<close>, \<open>serverVersionNumber\<close>,
  \<open>autocommitFlag\<close>, \<open>execute(sql)\<close>, \<open>fetchOneRow()\<close> and \<open>rollback()\<close>. A query run in
  manual-commit mode with no transaction open starts an implicit transaction; a rollback
  ends the open transaction. \<open>server\<close> is what the server answers to an SQL text: an
  error, or the rows of the result, each row of the discovery query being the type's oid
  and its array oid or NULL. \<open>trace\<close> records the calls made on the connection, oldest
  first.
\<close>

datatype conn_status = STATUS_READY | STATUS_IN_TRANSACTION | STATUS_PREPARED

datatype event = Execute string | Rollback

type_synonym row = "int \<times> int option"

record conn =
  status :: conn_status
  autocommit :: bool
  server_version :: int
  server :: "string \<Rightarrow> exn + row list"
  trace :: "event list"

definition execute :: "string \<Rightarrow> conn \<Rightarrow> (exn + row list) \<times> conn" where
  "execute sql c =
     (server c sql,
      c\<lparr> status :=
            (if \<not> autocommit c \<and> status c = STATUS_READY
             then STATUS_IN_TRANSACTION else status c),
         trace := trace c @ [Execute sql] \<rparr>)"

definition fetchone :: "row list \<Rightarrow> row option" where
  "fetchone rows = (case rows of [] \<Rightarrow> None | r # rest \<Rightarrow> Some r)"

definition rollback :: "conn \<Rightarrow> conn" where
  "rollback c =
     c\<lparr> status :=
           (if status c = STATUS_IN_TRANSACTION then STATUS_READY else status c),
        trace := trace c @ [Rollback] \<rparr>"

subsection \<open>The state the module acts on\<close>

text \<open>
  \<open>conns\<close> is the store of connection objects. The typecaster tables belong to the
  driver: one for the process and one per connection or cursor.

  Modelled from the spec: \<open>register_type\<close> of the C extension, the spec's
  \<open>installDescriptor(descriptor, scopeTargetOrNone)\<close>: the descriptor goes into the
  table of the given connection or cursor, or into the global table when the target is
  absent, under each of its oids.
\<close>

record 'v world =
  conns :: "ref \<Rightarrow> conn"
  global_types :: "(int option \<times> 'v typecaster) list"
  local_types :: "(ref \<times> int option \<times> 'v typecaster) list"

definition register_type :: "'v typecaster \<Rightarrow> ref option \<Rightarrow> 'v world \<Rightarrow> 'v world" where
  "register_type obj scope w =
     (case scope of
        None \<Rightarrow>
          w\<lparr> global_types := map (\<lambda>k. (k, obj)) (typecaster_values obj) @ global_types w \<rparr>
      | Some h \<Rightarrow>
          w\<lparr> local_types := map (\<lambda>k. (h, k, obj)) (typecaster_values obj) @ local_types w \<rparr>)"

subsection \<open>Looking the oids up\<close>

definition json_oids_query :: "conn \<Rightarrow> string" where
  "json_oids_query c =
     ''SELECT t.oid, '' @
     (if server_version c \<ge> 80300 then ''typarray'' else ''NULL'') @
     '' FROM pg_type t WHERE t.typname = 'json';''"

text \<open>
  \<open>_get_json_oids\<close> (lines 207-233). \<open>_solve_conn_curs\<close> lives in psycopg2.extras and
  is the parameter \<open>solve\<close>: from a connection, a cursor or \<open>None\<close> it gives the
  connection the query runs on, or raises.
\<close>

definition get_json_oids ::
  "(ref option \<Rightarrow> exn + ref) \<Rightarrow> 'v world \<Rightarrow> ref option \<Rightarrow> (exn + row) \<times> 'v world" where
  "get_json_oids solve w conn_or_curs =
     (case solve conn_or_curs of
        Inl e \<Rightarrow> (Inl e, w)
      | Inr cid \<Rightarrow>
          (let c = conns w cid;
               conn_status = status c
           in case execute (json_oids_query c) c of
                (Inl e, c1) \<Rightarrow> (Inl e, w\<lparr> conns := (conns w)(cid := c1) \<rparr>)
              | (Inr rows, c1) \<Rightarrow>
                  (let r = fetchone rows;
                       c2 = (if conn_status \<noteq> STATUS_IN_TRANSACTION \<and> \<not> autocommit c1
                             then rollback c1 else c1);
                       w' = w\<lparr> conns := (conns w)(cid := c2) \<rparr>
                   in case r of
                        None \<Rightarrow> (Inl (ProgrammingError ''json data type not found''), w')
                      | Some rw \<Rightarrow> (Inr rw, w'))))"

subsection \<open>Registration\<close>

text \<open>
  The scope argument \<open>not globally and conn_or_curs or None\<close> (lines 171, 174):
  connection and cursor objects are true values, \<open>None\<close> is false.
\<close>

definition register_scope :: "bool \<Rightarrow> ref option \<Rightarrow> ref option" where
  "register_scope globally conn_or_curs =
     (if \<not> globally \<and> conn_or_curs \<noteq> None then conn_or_curs else None)"

definition register_json ::
  "(ref option \<Rightarrow> exn + ref) \<Rightarrow> 'v json_module option \<Rightarrow> 'v world \<Rightarrow> ref option \<Rightarrow> bool
     \<Rightarrow> (string \<Rightarrow> exn + 'v) option \<Rightarrow> int option \<Rightarrow> int option
     \<Rightarrow> (exn + ('v typecaster \<times> 'v typecaster option)) \<times> 'v world" where
  "register_json solve json w conn_or_curs globally loads oid array_oid =
     (case (case oid of
              None \<Rightarrow> get_json_oids solve w conn_or_curs
            | Some oid' \<Rightarrow> (Inr (oid', array_oid), w)) of
        (Inl e, w1) \<Rightarrow> (Inl e, w1)
      | (Inr (oid', array_oid'), w1) \<Rightarrow>
          (case create_json_typecasters json oid' array_oid' loads of
             Inl e \<Rightarrow> (Inl e, w1)
           | Inr (JSON, JSONARRAY) \<Rightarrow>
               (let w2 = register_type JSON (register_scope globally conn_or_curs) w1;
                    w3 = (case JSONARRAY of
                            Some ja \<Rightarrow>
                              register_type ja (register_scope globally conn_or_curs) w2
                          | None \<Rightarrow> w2)
                in (Inr (JSON, JSONARRAY), w3))))"

definition register_default_json ::
  "(ref option \<Rightarrow> exn + ref) \<Rightarrow> 'v json_module option \<Rightarrow> 'v world \<Rightarrow> ref option \<Rightarrow> bool
     \<Rightarrow> (string \<Rightarrow> exn + 'v) option
     \<Rightarrow> (exn + ('v typecaster \<times> 'v typecaster option)) \<times> 'v world" where
  "register_default_json solve json w conn_or_curs globally loads =
     register_json solve json w conn_or_curs globally loads
       (Some JSON_OID) (Some JSONARRAY_OID)"

subsection \<open>Reading a trace\<close>


subsection \<open>Example values\<close>

text \<open>
  A json implementation over natural numbers, a connection in manual-commit mode with
  no transaction open on a 9.1 server that gives a fixed answer, a store holding that
  connection at every address, and a resolution function under which every object
  handed in is a connection.
\<close>

definition example_json :: "nat json_module" where
  "example_json =
     \<lparr> json_dumps = (\<lambda>n. Inr (replicate n CHR ''x'')),
       json_loads = (\<lambda>s. Inr (length s)) \<rparr>"

definition example_conn :: "exn + row list \<Rightarrow> conn" where
  "example_conn answer =
     \<lparr> status = STATUS_READY, autocommit = False, server_version = 90100,
       server = (\<lambda>sql. answer), trace = [] \<rparr>"

definition example_world :: "exn + row list \<Rightarrow> nat world" where
  "example_world answer =
     \<lparr> conns = (\<lambda>r. example_conn answer), global_types = [], local_types = [] \<rparr>"

definition example_solve :: "ref option \<Rightarrow> exn + ref" where
  "example_solve conn_or_curs =
     (case conn_or_curs of
        None \<Rightarrow> Inl (ProgrammingError ''no connection or cursor provided'')
      | Some r \<Rightarrow> Inr r)"

section \<open>Properties\<close>

subsection \<open>The oid lookup, case by case\<close>


lemma get_json_oids_tables:
  "get_json_oids solve w conn_or_curs = (r, w') \<Longrightarrow>
     global_types w' = global_types w \<and> local_types w' = local_types w"
  by (auto simp: get_json_oids_def execute_def Let_def
           split: sum.splits option.splits prod.splits if_splits)

lemma get_json_oids_unsolved:
  "solve conn_or_curs = Inl e \<Longrightarrow> get_json_oids solve w conn_or_curs = (Inl e, w)"
  by (simp add: get_json_oids_def)

lemma get_json_oids_failed_query:
  assumes "solve conn_or_curs = Inr cid"
    and "server (conns w cid) (json_oids_query (conns w cid)) = Inl e"
    and "get_json_oids solve w conn_or_curs = (r, w')"
  shows "r = Inl e"
    and "trace (conns w' cid) =
           trace (conns w cid) @ [Execute (json_oids_query (conns w cid))]"
    and "c \<noteq> cid \<Longrightarrow> conns w' c = conns w c"
  using assms by (auto simp: get_json_oids_def execute_def Let_def)

lemma get_json_oids_answered:
  assumes "solve conn_or_curs = Inr cid"
    and "server (conns w cid) (json_oids_query (conns w cid)) = Inr rows"
    and "get_json_oids solve w conn_or_curs = (r, w')"
  shows "r = (case fetchone rows of
                None \<Rightarrow> Inl (ProgrammingError ''json data type not found'')
              | Some rw \<Rightarrow> Inr rw)"
    and "status (conns w' cid) = status (conns w cid)"
    and "trace (conns w' cid) =
           trace (conns w cid) @ Execute (json_oids_query (conns w cid)) #
             (if status (conns w cid) \<noteq> STATUS_IN_TRANSACTION \<and>
                 \<not> autocommit (conns w cid)
              then [Rollback] else [])"
    and "c \<noteq> cid \<Longrightarrow> conns w' c = conns w c"
  using assms
  by (cases "status (conns w cid)";
      auto simp: get_json_oids_def execute_def Let_def rollback_def split: option.splits)+

subsection \<open>Building and installing, case by case\<close>

lemma create_json_typecasters_error:
  "create_json_typecasters json oid array_oid loads = Inl e \<longleftrightarrow>
     loads = None \<and> json = None \<and> e = ImportError ''no json module available''"
  by (auto simp: create_json_typecasters_def Let_def split: option.splits)

lemma create_json_typecasters_values:
  assumes "create_json_typecasters json oid array_oid loads = Inr (JSON, JSONARRAY)"
  shows "typecaster_values JSON = [Some oid]"
    and "\<exists>ja. JSONARRAY = Some ja \<and> typecaster_values ja = [array_oid]"
  using assms
  by (auto simp: create_json_typecasters_def Let_def split: option.splits)

lemma register_json_oid_given:
  "register_json solve json w conn_or_curs globally loads (Some oid) array_oid =
     (case create_json_typecasters json oid array_oid loads of
        Inl e \<Rightarrow> (Inl e, w)
      | Inr (JSON, JSONARRAY) \<Rightarrow>
          (Inr (JSON, JSONARRAY),
           (case JSONARRAY of
              Some ja \<Rightarrow> register_type ja (register_scope globally conn_or_curs)
              | None \<Rightarrow> (\<lambda>x. x))
             (register_type JSON (register_scope globally conn_or_curs) w)))"
  by (simp add: register_json_def Let_def split: sum.splits prod.splits option.splits)

lemma register_json_oid_absent:
  "register_json solve json w conn_or_curs globally loads None array_oid =
     (case get_json_oids solve w conn_or_curs of
        (Inl e, w1) \<Rightarrow> (Inl e, w1)
      | (Inr (oid, array_oid'), w1) \<Rightarrow>
          (case create_json_typecasters json oid array_oid' loads of
             Inl e \<Rightarrow> (Inl e, w1)
           | Inr (JSON, JSONARRAY) \<Rightarrow>
               (Inr (JSON, JSONARRAY),
                (case JSONARRAY of
                   Some ja \<Rightarrow> register_type ja (register_scope globally conn_or_curs)
                 | None \<Rightarrow> (\<lambda>x. x))
                  (register_type JSON (register_scope globally conn_or_curs) w1))))"
  by (simp add: register_json_def Let_def split: sum.splits prod.splits option.splits)

lemma register_type_conns: "conns (register_type obj scope w) = conns w"
  by (simp add: register_type_def split: option.splits)

lemma register_type_global:
  "global_types (register_type obj None w) =
     map (\<lambda>k. (k, obj)) (typecaster_values obj) @ global_types w"
  "local_types (register_type obj None w) = local_types w"
  by (simp_all add: register_type_def)

lemma register_type_local:
  "local_types (register_type obj (Some h) w) =
     map (\<lambda>k. (h, k, obj)) (typecaster_values obj) @ local_types w"
  "global_types (register_type obj (Some h) w) = global_types w"
  by (simp_all add: register_type_def)

lemma register_json_success:
  assumes "register_json solve json w conn_or_curs globally loads oid array_oid =
             (Inr (JSON, JSONARRAY), w')"
  shows "\<exists>w1. global_types w1 = global_types w \<and> local_types w1 = local_types w \<and>
           w' = (case JSONARRAY of
                   Some ja \<Rightarrow> register_type ja (register_scope globally conn_or_curs)
                 | None \<Rightarrow> (\<lambda>x. x))
                  (register_type JSON (register_scope globally conn_or_curs) w1)"
proof (cases oid)
  case (Some oid')
  with assms show ?thesis
    by (auto simp: register_json_oid_given split: sum.splits prod.splits)
next
  case None
  with assms show ?thesis
    by (auto simp: register_json_oid_absent split: sum.splits prod.splits
             dest: get_json_oids_tables)
qed

lemma register_json_conns:
  assumes "register_json solve json w conn_or_curs globally loads oid array_oid = (r, w')"
  shows "case oid of
           Some oid' \<Rightarrow> conns w' = conns w
         | None \<Rightarrow> conns w' = conns (snd (get_json_oids solve w conn_or_curs))"
  using assms
  by (cases oid)
     (auto simp: register_json_oid_given register_json_oid_absent register_type_conns
           split: sum.splits prod.splits option.splits)

subsection \<open>Claims\<close>

text \<open>
  C1. The claim: for every scalar oid and decode function, \<open>_create_json_typecasters\<close>
  called with an absent array oid returns a scalar typecaster and \<open>None\<close> for the array
  typecaster, and does not raise. The function does not raise and returns the scalar
  typecaster, but it also builds an array typecaster, keyed on \<open>None\<close>: the result below
  is what it returns for every oid and every decode function.
\<close>

theorem create_json_typecasters_absent_array_oid:
  "create_json_typecasters json oid None (Some loads) =
     Inr (new_type [Some oid] ''JSON'' (typecast_json loads),
          Some (new_array_type [None] ''JSONARRAY''
                  (new_type [Some oid] ''JSON'' (typecast_json loads))))"
  by (simp add: create_json_typecasters_def Let_def)

text \<open>
  C2. A \<open>Json\<close> built with a \<open>dumps\<close> function serialises with that function, whether
  or not a json module is there; built without one, it serialises with the module's
  \<open>dumps\<close>; with neither, \<open>dumps\<close> raises \<open>ImportError\<close> and gives no text.
\<close>

theorem Json_dumps_priority:
  "Json_dumps (Json_init json a (Some f)) obj = f obj \<and>
   Json_dumps (Json_init (Some m) a None) obj = json_dumps m obj \<and>
   Json_dumps (Json_init None a None) obj =
     Inl (ImportError ''json module not available: you should provide a dumps function'')"
  by (simp add: Json_dumps_def Json_init_def)

theorem Json_dumps_priority_witness:
  "Json_dumps (Json_init (Some example_json) (3::nat) (Some (\<lambda>n. Inr ''custom''))) 3 =
     Inr ''custom'' \<and>
   Json_dumps (Json_init (Some example_json) (3::nat) None) 3 = Inr ''xxx'' \<and>
   Json_dumps (Json_init None (3::nat) None) 3 =
     Inl (ImportError ''json module not available: you should provide a dumps function'')"
  using Json_dumps_priority [of "Some example_json" 3 "\<lambda>n. Inr ''custom''" 3 example_json]
        Json_dumps_priority [of None 3 "\<lambda>n. Inr ''custom''" 3 example_json]
  by (simp add: example_json_def numeral_3_eq_3)

text \<open>
  C3. When the connection resolves and the server answers the query, the status of the
  connection after \<open>_get_json_oids\<close> is its status before, and the calls made on the
  connection are the query, followed by a rollback exactly when the status before was
  not \<open>STATUS_IN_TRANSACTION\<close> and autocommit is off: no rollback inside a transaction
  or in autocommit mode.
\<close>

theorem get_json_oids_restores_status:
  assumes "solve conn_or_curs = Inr cid"
    and "server (conns w cid) (json_oids_query (conns w cid)) = Inr rows"
    and "get_json_oids solve w conn_or_curs = (r, w')"
  shows "status (conns w' cid) = status (conns w cid) \<and>
         trace (conns w' cid) =
           trace (conns w cid) @ Execute (json_oids_query (conns w cid)) #
             (if status (conns w cid) \<noteq> STATUS_IN_TRANSACTION \<and> \<not> autocommit (conns w cid)
              then [Rollback] else [])"
  using get_json_oids_answered(2,3) [OF assms] by simp

theorem get_json_oids_restores_status_witness:
  "status (conns (snd (get_json_oids example_solve
                         (example_world (Inr [(3802, Some 3807)])) (Some 0))) 0) =
     STATUS_READY \<and>
   trace (conns (snd (get_json_oids example_solve
                        (example_world (Inr [(3802, Some 3807)])) (Some 0))) 0) =
     [Execute ''SELECT t.oid, typarray FROM pg_type t WHERE t.typname = 'json';'',
      Rollback]"
  using get_json_oids_restores_status
    [of example_solve "Some 0" 0 "example_world (Inr [(3802, Some 3807)])"
        "[(3802, Some 3807)]"
        "fst (get_json_oids example_solve (example_world (Inr [(3802, Some 3807)])) (Some 0))"
        "snd (get_json_oids example_solve (example_world (Inr [(3802, Some 3807)])) (Some 0))"]
  by (simp add: example_solve_def example_world_def example_conn_def json_oids_query_def)

text \<open>
  C4. On a registration that returns, each typecaster built is installed in the table of
  the connection or cursor exactly when \<open>globally\<close> is false and a connection or cursor
  was given, the global table staying as it was; otherwise it is installed in the
  global table, the local tables staying as they were.
\<close>

theorem register_json_scope:
  assumes "register_json solve json w conn_or_curs globally loads oid array_oid =
             (Inr (JSON, JSONARRAY), w')"
  shows "if \<not> globally \<and> conn_or_curs \<noteq> None
         then global_types w' = global_types w \<and>
              (\<exists>h. conn_or_curs = Some h \<and>
                 local_types w' =
                   (case JSONARRAY of
                      Some ja \<Rightarrow> map (\<lambda>k. (h, k, ja)) (typecaster_values ja)
                    | None \<Rightarrow> []) @
                   map (\<lambda>k. (h, k, JSON)) (typecaster_values JSON) @ local_types w)
         else local_types w' = local_types w \<and>
              global_types w' =
                (case JSONARRAY of
                   Some ja \<Rightarrow> map (\<lambda>k. (k, ja)) (typecaster_values ja)
                 | None \<Rightarrow> []) @
                map (\<lambda>k. (k, JSON)) (typecaster_values JSON) @ global_types w"
proof -
  from register_json_success [OF assms]
  obtain w1 where g: "global_types w1 = global_types w"
    and l: "local_types w1 = local_types w"
    and w': "w' = (case JSONARRAY of
                     Some ja \<Rightarrow> register_type ja (register_scope globally conn_or_curs)
                   | None \<Rightarrow> (\<lambda>x. x))
                    (register_type JSON (register_scope globally conn_or_curs) w1)"
    by blast
  show ?thesis
  proof (cases "\<not> globally \<and> conn_or_curs \<noteq> None")
    case True
    then obtain h where h: "conn_or_curs = Some h" by blast
    with True have "register_scope globally conn_or_curs = Some h"
      by (simp add: register_scope_def)
    with True g l w' h show ?thesis
      by (cases JSONARRAY) (simp_all add: register_type_local)
  next
    case False
    then have "register_scope globally conn_or_curs = None"
      by (auto simp: register_scope_def)
    with False g l w' show ?thesis
      by (cases JSONARRAY) (auto simp: register_type_global)
  qed
qed

theorem register_json_scope_witness:
  "local_types (snd (register_json example_solve (Some example_json) (example_world (Inr []))
                       (Some 7) False None (Some 114) (Some 199))) =
     [(7, Some 199, new_array_type [Some 199] ''JSONARRAY''
                      (new_type [Some 114] ''JSON'' (typecast_json (json_loads example_json)))),
      (7, Some 114, new_type [Some 114] ''JSON'' (typecast_json (json_loads example_json)))] \<and>
   global_types (snd (register_json example_solve (Some example_json) (example_world (Inr []))
                       (Some 7) False None (Some 114) (Some 199))) = [] \<and>
   global_types (snd (register_json example_solve (Some example_json) (example_world (Inr []))
                       (Some 7) True None (Some 114) (Some 199))) =
     [(Some 199, new_array_type [Some 199] ''JSONARRAY''
                   (new_type [Some 114] ''JSON'' (typecast_json (json_loads example_json)))),
      (Some 114, new_type [Some 114] ''JSON'' (typecast_json (json_loads example_json)))] \<and>
   local_types (snd (register_json example_solve (Some example_json) (example_world (Inr []))
                       (Some 7) True None (Some 114) (Some 199))) = []"
  using register_json_scope
    [of example_solve "Some example_json" "example_world (Inr [])" "Some 7" False None
        "Some 114" "Some 199"
        "new_type [Some 114] ''JSON'' (typecast_json (json_loads example_json))"
        "Some (new_array_type [Some 199] ''JSONARRAY''
                (new_type [Some 114] ''JSON'' (typecast_json (json_loads example_json))))"
        "snd (register_json example_solve (Some example_json) (example_world (Inr []))
                (Some 7) False None (Some 114) (Some 199))"]
    register_json_scope
    [of example_solve "Some example_json" "example_world (Inr [])" "Some 7" True None
        "Some 114" "Some 199"
        "new_type [Some 114] ''JSON'' (typecast_json (json_loads example_json))"
        "Some (new_array_type [Some 199] ''JSONARRAY''
                (new_type [Some 114] ''JSON'' (typecast_json (json_loads example_json))))"
        "snd (register_json example_solve (Some example_json) (example_world (Inr []))
                (Some 7) True None (Some 114) (Some 199))"]
  by (simp add: register_json_def create_json_typecasters_def Let_def example_world_def)

text \<open>
  C5. \<open>register_default_json\<close> leaves every connection as it was, so no query is
  issued; it raises only when no \<open>loads\<close> function is given and there is no json
  module, and the typecasters it returns otherwise are keyed on 114 and on 199.
\<close>

theorem register_default_json_oids_no_query:
  assumes "register_default_json solve json w conn_or_curs globally loads = (r, w')"
  shows "conns w' = conns w \<and>
         (case r of
            Inl e \<Rightarrow> loads = None \<and> json = None \<and> e = ImportError ''no json module available''
          | Inr (JSON, JSONARRAY) \<Rightarrow>
              typecaster_values JSON = [Some 114] \<and>
              (\<exists>ja. JSONARRAY = Some ja \<and> typecaster_values ja = [Some 199]))"
proof -
  from assms have run:
    "register_json solve json w conn_or_curs globally loads (Some 114) (Some 199) = (r, w')"
    by (simp add: register_default_json_def JSON_OID_def JSONARRAY_OID_def)
  from register_json_conns [OF run] have "conns w' = conns w"
    by simp
  moreover from run have
    "case r of
       Inl e \<Rightarrow> loads = None \<and> json = None \<and> e = ImportError ''no json module available''
     | Inr (JSON, JSONARRAY) \<Rightarrow>
         typecaster_values JSON = [Some 114] \<and>
         (\<exists>ja. JSONARRAY = Some ja \<and> typecaster_values ja = [Some 199])"
    by (auto simp: register_json_oid_given create_json_typecasters_error
             split: sum.splits prod.splits
             dest: create_json_typecasters_values)
  ultimately show ?thesis by simp
qed

theorem register_default_json_oids_no_query_witness:
  "conns (snd (register_default_json example_solve (Some example_json)
                 (example_world (Inr [(3802, Some 3807)])) (Some 0) False None)) =
     conns (example_world (Inr [(3802, Some 3807)])) \<and>
   (case fst (register_default_json example_solve (Some example_json)
                (example_world (Inr [(3802, Some 3807)])) (Some 0) False None) of
      Inl e \<Rightarrow> False
    | Inr (JSON, JSONARRAY) \<Rightarrow>
        typecaster_values JSON = [Some 114] \<and>
        (\<exists>ja. JSONARRAY = Some ja \<and> typecaster_values ja = [Some 199]))"
  using register_default_json_oids_no_query
    [of example_solve "Some example_json" "example_world (Inr [(3802, Some 3807)])" "Some 0"
        False None
        "fst (register_default_json example_solve (Some example_json)
                (example_world (Inr [(3802, Some 3807)])) (Some 0) False None)"
        "snd (register_default_json example_solve (Some example_json)
                (example_world (Inr [(3802, Some 3807)])) (Some 0) False None)"]
  by (auto split: sum.splits)



text \<open>
  C7. When the connection resolves and the server answers the lookup with no row,
  \<open>_get_json_oids\<close> raises \<open>ProgrammingError\<close> "json data type not found": it returns
  no pair of oids.
\<close>

theorem get_json_oids_not_found:
  assumes "solve conn_or_curs = Inr cid"
    and "server (conns w cid) (json_oids_query (conns w cid)) = Inr []"
  shows "fst (get_json_oids solve w conn_or_curs) =
           Inl (ProgrammingError ''json data type not found'')"
proof -
  obtain r w' where run: "get_json_oids solve w conn_or_curs = (r, w')"
    by (cases "get_json_oids solve w conn_or_curs")
  from get_json_oids_answered(1) [OF assms run] run show ?thesis
    by (simp add: fetchone_def)
qed

theorem get_json_oids_not_found_witness:
  "fst (get_json_oids example_solve (example_world (Inr []) :: nat world) (Some 0)) =
     Inl (ProgrammingError ''json data type not found'')"
  using get_json_oids_not_found [of example_solve "Some 0" 0 "example_world (Inr [])"]
  by (simp add: example_solve_def example_world_def example_conn_def)

text \<open>
  C8. When no \<open>loads\<close> function is given and there is no json module, \<open>register_json\<close>
  raises and both typecaster tables are as they were before the call; with the oid
  given, the exception is the \<open>ImportError\<close> of \<open>_create_json_typecasters\<close> and nothing
  at all has changed.
\<close>

theorem register_json_no_partial_registration:
  assumes "loads = None" and "json = None"
    and "register_json solve json w conn_or_curs globally loads oid array_oid = (r, w')"
  shows "(\<exists>e. r = Inl e) \<and>
         global_types w' = global_types w \<and> local_types w' = local_types w \<and>
         (oid \<noteq> None \<longrightarrow> r = Inl (ImportError ''no json module available'') \<and> w' = w)"
proof (cases oid)
  case (Some oid')
  have "create_json_typecasters json oid' array_oid loads =
          Inl (ImportError ''no json module available'')"
    using assms(1,2) by (simp add: create_json_typecasters_error)
  then have "register_json solve json w conn_or_curs globally loads (Some oid') array_oid =
          (Inl (ImportError ''no json module available''), w)"
    by (simp add: register_json_oid_given)
  with assms(3) Some have "r = Inl (ImportError ''no json module available'') \<and> w' = w"
    by simp
  with Some show ?thesis
    by simp
next
  case None
  obtain r1 w1 where disc: "get_json_oids solve w conn_or_curs = (r1, w1)"
    by (cases "get_json_oids solve w conn_or_curs")
  have fails: "create_json_typecasters json oid' array_oid' loads =
          Inl (ImportError ''no json module available'')" for oid' array_oid'
    using assms(1,2) by (simp add: create_json_typecasters_error)
  from assms(3) None disc fails have "(\<exists>e. r = Inl e) \<and> w' = w1"
    by (auto simp: register_json_oid_absent split: sum.splits prod.splits)
  with get_json_oids_tables [OF disc] None show ?thesis
    by simp
qed

theorem register_json_no_partial_registration_witness:
  "fst (register_json example_solve None (example_world (Inr [(3802, Some 3807)]) :: nat world)
          (Some 0) False None None None) =
     Inl (ImportError ''no json module available'') \<and>
   global_types (snd (register_json example_solve None
                        (example_world (Inr [(3802, Some 3807)]) :: nat world)
                        (Some 0) False None None None)) = [] \<and>
   local_types (snd (register_json example_solve None
                       (example_world (Inr [(3802, Some 3807)]) :: nat world)
                       (Some 0) False None None None)) = []"
  using register_json_no_partial_registration
    [of None None example_solve "example_world (Inr [(3802, Some 3807)]) :: nat world"
        "Some 0" False None None
        "fst (register_json example_solve None
                (example_world (Inr [(3802, Some 3807)]) :: nat world)
                (Some 0) False None None None)"
        "snd (register_json example_solve None
                (example_world (Inr [(3802, Some 3807)]) :: nat world)
                (Some 0) False None None None)"]
  by (simp add: register_json_def get_json_oids_def execute_def rollback_def fetchone_def
        create_json_typecasters_def Let_def
        example_solve_def example_world_def example_conn_def json_oids_query_def)

text \<open>
  C9. On a connection that resolves: whenever the server answers the lookup, with rows
  or with none, the calls made on the connection are the query followed by the rollback
  (when the status before was not \<open>STATUS_IN_TRANSACTION\<close> and autocommit is off), and
  with no row the \<open>ProgrammingError\<close> is raised on the connection so restored; when
  the query itself fails, its exception propagates and the query is the only call made.
\<close>

theorem get_json_oids_restoration_after_query:
  assumes "solve conn_or_curs = Inr cid"
    and "get_json_oids solve w conn_or_curs = (r, w')"
  shows "(\<forall>rows. server (conns w cid) (json_oids_query (conns w cid)) = Inr rows \<longrightarrow>
            trace (conns w' cid) =
              trace (conns w cid) @ Execute (json_oids_query (conns w cid)) #
                (if status (conns w cid) \<noteq> STATUS_IN_TRANSACTION \<and>
                    \<not> autocommit (conns w cid)
                 then [Rollback] else []) \<and>
            (rows = [] \<longrightarrow> r = Inl (ProgrammingError ''json data type not found''))) \<and>
         (\<forall>e. server (conns w cid) (json_oids_query (conns w cid)) = Inl e \<longrightarrow>
            r = Inl e \<and>
            trace (conns w' cid) =
              trace (conns w cid) @ [Execute (json_oids_query (conns w cid))])"
proof (intro conjI allI impI)
  fix rows
  assume ans: "server (conns w cid) (json_oids_query (conns w cid)) = Inr rows"
  from get_json_oids_answered(3) [OF assms(1) ans assms(2)]
  show "trace (conns w' cid) =
          trace (conns w cid) @ Execute (json_oids_query (conns w cid)) #
            (if status (conns w cid) \<noteq> STATUS_IN_TRANSACTION \<and> \<not> autocommit (conns w cid)
             then [Rollback] else [])" .
  assume "rows = []"
  with get_json_oids_answered(1) [OF assms(1) ans assms(2)]
  show "r = Inl (ProgrammingError ''json data type not found'')"
    by (simp add: fetchone_def)
next
  fix e
  assume err: "server (conns w cid) (json_oids_query (conns w cid)) = Inl e"
  from get_json_oids_failed_query(1) [OF assms(1) err assms(2)]
  show "r = Inl e" .
  from get_json_oids_failed_query(2) [OF assms(1) err assms(2)]
  show "trace (conns w' cid) =
          trace (conns w cid) @ [Execute (json_oids_query (conns w cid))]" .
qed

theorem get_json_oids_restoration_after_query_witness:
  "fst (get_json_oids example_solve (example_world (Inr []) :: nat world) (Some 0)) =
     Inl (ProgrammingError ''json data type not found'') \<and>
   trace (conns (snd (get_json_oids example_solve (example_world (Inr []) :: nat world)
                        (Some 0))) 0) =
     [Execute ''SELECT t.oid, typarray FROM pg_type t WHERE t.typname = 'json';'',
      Rollback] \<and>
   fst (get_json_oids example_solve
          (example_world (Inl (DatabaseError ''server closed the connection'')) :: nat world)
          (Some 0)) =
     Inl (DatabaseError ''server closed the connection'') \<and>
   trace (conns (snd (get_json_oids example_solve
                        (example_world (Inl (DatabaseError ''server closed the connection''))
                           :: nat world)
                        (Some 0))) 0) =
     [Execute ''SELECT t.oid, typarray FROM pg_type t WHERE t.typname = 'json';'']"
proof -
  let ?empty = "example_world (Inr []) :: nat world"
  let ?down = "example_world (Inl (DatabaseError ''server closed the connection'')) :: nat world"
  have solved: "example_solve (Some 0) = Inr 0"
    by (simp add: example_solve_def)
  have run_empty: "get_json_oids example_solve ?empty (Some 0) =
      (fst (get_json_oids example_solve ?empty (Some 0)),
       snd (get_json_oids example_solve ?empty (Some 0)))"
    by simp
  have run_down: "get_json_oids example_solve ?down (Some 0) =
      (fst (get_json_oids example_solve ?down (Some 0)),
       snd (get_json_oids example_solve ?down (Some 0)))"
    by simp
  have answer_empty: "server (conns ?empty 0) (json_oids_query (conns ?empty 0)) = Inr []"
    by (simp add: example_world_def example_conn_def)
  have answer_down: "server (conns ?down 0) (json_oids_query (conns ?down 0)) =
      Inl (DatabaseError ''server closed the connection'')"
    by (simp add: example_world_def example_conn_def)
  from get_json_oids_restoration_after_query [OF solved run_empty] answer_empty
  have "trace (conns (snd (get_json_oids example_solve ?empty (Some 0))) 0) =
          trace (conns ?empty 0) @ Execute (json_oids_query (conns ?empty 0)) #
            (if status (conns ?empty 0) \<noteq> STATUS_IN_TRANSACTION \<and>
                \<not> autocommit (conns ?empty 0)
             then [Rollback] else []) \<and>
        fst (get_json_oids example_solve ?empty (Some 0)) =
          Inl (ProgrammingError ''json data type not found'')"
    by blast
  moreover
  from get_json_oids_restoration_after_query [OF solved run_down] answer_down
  have "fst (get_json_oids example_solve ?down (Some 0)) =
          Inl (DatabaseError ''server closed the connection'') \<and>
        trace (conns (snd (get_json_oids example_solve ?down (Some 0))) 0) =
          trace (conns ?down 0) @ [Execute (json_oids_query (conns ?down 0))]"
    by blast
  ultimately show ?thesis
    by (simp add: example_world_def example_conn_def json_oids_query_def)
qed

text \<open>
  C10. With no oid given, the \<open>array_oid\<close> argument of \<open>register_json\<close> has no effect:
  the call does what it does with \<open>array_oid\<close> absent, and the typecasters it returns
  are keyed on the two oids that the lookup returned.
\<close>

theorem register_json_discards_array_oid:
  "register_json solve json w conn_or_curs globally loads None array_oid =
     register_json solve json w conn_or_curs globally loads None None \<and>
   (\<forall>JSON JSONARRAY w'.
      register_json solve json w conn_or_curs globally loads None array_oid =
        (Inr (JSON, JSONARRAY), w') \<longrightarrow>
      (\<exists>oid' array_oid'.
         fst (get_json_oids solve w conn_or_curs) = Inr (oid', array_oid') \<and>
         typecaster_values JSON = [Some oid'] \<and>
         (\<forall>ja. JSONARRAY = Some ja \<longrightarrow> typecaster_values ja = [array_oid'])))"
proof (intro conjI allI impI)
  show "register_json solve json w conn_or_curs globally loads None array_oid =
          register_json solve json w conn_or_curs globally loads None None"
    by (simp add: register_json_oid_absent)
next
  fix JSON JSONARRAY w'
  assume "register_json solve json w conn_or_curs globally loads None array_oid =
            (Inr (JSON, JSONARRAY), w')"
  then show "\<exists>oid' array_oid'.
         fst (get_json_oids solve w conn_or_curs) = Inr (oid', array_oid') \<and>
         typecaster_values JSON = [Some oid'] \<and>
         (\<forall>ja. JSONARRAY = Some ja \<longrightarrow> typecaster_values ja = [array_oid'])"
    by (auto simp: register_json_oid_absent split: sum.splits prod.splits
             dest: create_json_typecasters_values)
qed

theorem register_json_discards_array_oid_witness:
  "fst (register_json example_solve (Some example_json)
          (example_world (Inr [(3802, Some 3807)])) (Some 0) False None None (Some 199)) =
     Inr (new_type [Some 3802] ''JSON'' (typecast_json (json_loads example_json)),
          Some (new_array_type [Some 3807] ''JSONARRAY''
                  (new_type [Some 3802] ''JSON'' (typecast_json (json_loads example_json)))))"
proof -
  from register_json_discards_array_oid
    [of example_solve "Some example_json" "example_world (Inr [(3802, Some 3807)])" "Some 0"
        False None "Some 199"]
  have "register_json example_solve (Some example_json)
          (example_world (Inr [(3802, Some 3807)])) (Some 0) False None None (Some 199) =
        register_json example_solve (Some example_json)
          (example_world (Inr [(3802, Some 3807)])) (Some 0) False None None None"
    by blast
  moreover
  have "fst (register_json example_solve (Some example_json)
          (example_world (Inr [(3802, Some 3807)])) (Some 0) False None None None) =
     Inr (new_type [Some 3802] ''JSON'' (typecast_json (json_loads example_json)),
          Some (new_array_type [Some 3807] ''JSONARRAY''
                  (new_type [Some 3802] ''JSON'' (typecast_json (json_loads example_json)))))"
    by (simp add: register_json_def get_json_oids_def execute_def rollback_def fetchone_def
          create_json_typecasters_def Let_def
          example_solve_def example_world_def example_conn_def json_oids_query_def)
  ultimately show ?thesis
    by simp
qed

end
